theory Spec2Isabelle
  imports Main "HOL-Library.AList"
begin

section \<open>Python values, dictionaries and the process state\<close>

text \<open>
  The module \<^verbatim>\<open>expr-gen.py\<close> keeps its transaction context in the function attributes
  \<^verbatim>\<open>commit.reads\<close> and \<^verbatim>\<open>commit.writes\<close> and its goal frame in \<^verbatim>\<open>goal.journaled\<close>,
  \<^verbatim>\<open>goal.do\<close>, \<^verbatim>\<open>goal.in_do\<close> and \<^verbatim>\<open>goal.in_goal\<close>. All of them are fields of the state
  record below, next to the heap of dictionary objects and the heap of list objects.

  A value is \<^verbatim>\<open>None\<close>, an integer, a string, a reference to a dictionary object (unhashable,
  compared by identity), a reference to an instance object (hashable by identity; the
  capability objects are of this kind) or the integer \<^verbatim>\<open>id(x)\<close> of another value. The last
  constructor keeps the integers produced by \<^verbatim>\<open>id\<close> apart from the integers of the program:
  an \<^verbatim>\<open>id\<close> never collides with a key the program supplies.
\<close>

datatype val = VNone | VInt int | VStr string | VDict nat | VObj nat | VId val

datatype exn = KeyError | TypeError | AttributeError | IndexError | ValueError | Raised string

text \<open>
  A dictionary object: its entries in insertion order, and apart from them the entry under
  the key \<^verbatim>\<open>_dictKeys\<close> (the function object), which is a reference to the list object that
  holds the unhashable keys. Two dictionaries can refer to one list object.
\<close>

record pydict =
  items :: "(val \<times> val) list"
  ukeys :: "nat option"

text \<open>
  A registered optimizer is a closure. The closures that reach \<^verbatim>\<open>goal.do\<close> are: a strategy
  of the caller (named; its body is looked up in an environment), the \<^verbatim>\<open>repeat\<close> closure of
  \<^verbatim>\<open>minimize\<close> (which captures \<^verbatim>\<open>tries\<close>), and the \<^verbatim>\<open>combine\<close> closure of \<^verbatim>\<open>on_goal\<close>
  (which captures \<^verbatim>\<open>prev\<close> and \<^verbatim>\<open>do\<close>).
\<close>

datatype strat = Named string | Repeat nat | Combine strat strat

type_synonym effect_set = "val \<times> val \<times> val"

record 'w state =
  heap :: "pydict list"
  list_heap :: "val list list"
  commit_reads :: val
  commit_writes :: val
  goal_journaled :: "effect_set option"
  goal_do :: "strat option"
  goal_in_do :: bool
  goal_in_goal :: bool
  world :: 'w

text \<open>
  The field \<open>world\<close> is the rest of the process: the fields of instance objects and the
  random source. A Python callable is a function from the state to an outcome (an
  exception or a value) and the state it leaves.
\<close>

type_synonym ('a, 'w) M = "'w state \<Rightarrow> (exn + 'a) \<times> 'w state"

type_synonym 'w comp = "val list \<Rightarrow> (val, 'w) M"

definition ret :: "'a \<Rightarrow> ('a, 'w) M" where
  "ret x = (\<lambda>s. (Inr x, s))"

definition raise :: "exn \<Rightarrow> ('a, 'w) M" where
  "raise e = (\<lambda>s. (Inl e, s))"

definition bnd :: "('a, 'w) M \<Rightarrow> ('a \<Rightarrow> ('b, 'w) M) \<Rightarrow> ('b, 'w) M" where
  "bnd m f = (\<lambda>s. case m s of (Inl e, s') \<Rightarrow> (Inl e, s') | (Inr x, s') \<Rightarrow> f x s')"

text \<open>\<^verbatim>\<open>try: m  except E: h\<close>; any other exception passes through.\<close>

definition try_except :: "('a, 'w) M \<Rightarrow> exn \<Rightarrow> ('a, 'w) M \<Rightarrow> ('a, 'w) M" where
  "try_except m E h =
     (\<lambda>s. case m s of (Inl e, s') \<Rightarrow> (if e = E then h s' else (Inl e, s')) | (Inr x, s') \<Rightarrow> (Inr x, s'))"

subsection \<open>The built-in operations on dictionaries\<close>

definition hashable :: "val \<Rightarrow> bool" where
  "hashable v = (case v of VDict a \<Rightarrow> False | _ \<Rightarrow> True)"

text \<open>The dictionary object a value refers to, if it refers to one.\<close>

definition deref :: "'w state \<Rightarrow> val \<Rightarrow> pydict option" where
  "deref s d = (case d of VDict a \<Rightarrow> (if a < length (heap s) then Some (heap s ! a) else None)
                | _ \<Rightarrow> None)"

definition store :: "val \<Rightarrow> pydict \<Rightarrow> 'w state \<Rightarrow> 'w state" where
  "store d pd s = (case d of VDict a \<Rightarrow> s\<lparr>heap := (heap s)[a := pd]\<rparr> | _ \<Rightarrow> s)"

text \<open>\<^verbatim>\<open>d = {}\<close>: a fresh dictionary object.\<close>

definition new_dict :: "(val, 'w) M" where
  "new_dict = (\<lambda>s. (Inr (VDict (length (heap s))),
                     s\<lparr>heap := heap s @ [\<lparr>items = [], ukeys = None\<rparr>]\<rparr>))"

text \<open>
  \<^verbatim>\<open>key in d\<close>. On a dictionary an unhashable key raises \<^verbatim>\<open>TypeError\<close>. The module applies
  \<^verbatim>\<open>in\<close> to a value that is not a dictionary only with an \<^verbatim>\<open>id\<close> or a function object on
  the left, which raises \<^verbatim>\<open>TypeError\<close> for every other type of this model.
\<close>

definition py_in :: "val \<Rightarrow> val \<Rightarrow> (bool, 'w) M" where
  "py_in key d = (\<lambda>s. case deref s d of
       None \<Rightarrow> (Inl TypeError, s)
     | Some pd \<Rightarrow> (if hashable key then (Inr (map_of (items pd) key \<noteq> None), s)
                  else (Inl TypeError, s)))"

text \<open>\<^verbatim>\<open>_dictKeys in d\<close>.\<close>

definition keysfn_in :: "val \<Rightarrow> (bool, 'w) M" where
  "keysfn_in d = (\<lambda>s. case deref s d of
       None \<Rightarrow> (Inl TypeError, s)
     | Some pd \<Rightarrow> (Inr (ukeys pd \<noteq> None), s))"

text \<open>
  \<^verbatim>\<open>d[key]\<close>. A string can be indexed by an integer (negative indices count from the end);
  integers, \<^verbatim>\<open>None\<close> and instance objects are not subscriptable.
\<close>

definition getitem :: "val \<Rightarrow> val \<Rightarrow> (val, 'w) M" where
  "getitem d key = (\<lambda>s. case deref s d of
       Some pd \<Rightarrow> (if hashable key
                   then (case map_of (items pd) key of
                           None \<Rightarrow> (Inl KeyError, s) | Some v \<Rightarrow> (Inr v, s))
                   else (Inl TypeError, s))
     | None \<Rightarrow> (case (d, key) of
          (VStr str, VInt i) \<Rightarrow>
             (if 0 \<le> i \<and> i < int (length str) then (Inr (VStr [str ! nat i]), s)
              else if i < 0 \<and> - int (length str) \<le> i
                   then (Inr (VStr [str ! nat (int (length str) + i)]), s)
                   else (Inl IndexError, s))
        | _ \<Rightarrow> (Inl TypeError, s)))"

text \<open>\<^verbatim>\<open>d[key] = value\<close>; only dictionaries support item assignment.\<close>

definition setitem :: "val \<Rightarrow> val \<Rightarrow> val \<Rightarrow> (unit, 'w) M" where
  "setitem d key value = (\<lambda>s. case deref s d of
       None \<Rightarrow> (Inl TypeError, s)
     | Some pd \<Rightarrow> (if hashable key
                  then (Inr (), store d (pd\<lparr>items := AList.update key value (items pd)\<rparr>) s)
                  else (Inl TypeError, s)))"

text \<open>The elements of the list object \<open>l\<close>, if there is such an object.\<close>

definition list_at :: "'w state \<Rightarrow> nat \<Rightarrow> val list option" where
  "list_at s l = (if l < length (list_heap s) then Some (list_heap s ! l) else None)"

text \<open>
  The elements of \<^verbatim>\<open>d[_dictKeys]\<close> at the time of the call; \<^verbatim>\<open>d[_dictKeys] = []\<close>, which
  creates a list object; and \<^verbatim>\<open>d[_dictKeys].append(key)\<close>, which changes the list object
  and no dictionary.
\<close>

definition keysfn_get :: "val \<Rightarrow> (val list, 'w) M" where
  "keysfn_get d = (\<lambda>s. case deref s d of
       None \<Rightarrow> (Inl TypeError, s)
     | Some pd \<Rightarrow> (case ukeys pd of
          None \<Rightarrow> (Inl KeyError, s)
        | Some l \<Rightarrow> (case list_at s l of
             None \<Rightarrow> (Inl TypeError, s)
           | Some ks \<Rightarrow> (Inr ks, s))))"

definition keysfn_init :: "val \<Rightarrow> (unit, 'w) M" where
  "keysfn_init d = (\<lambda>s. case deref s d of
       None \<Rightarrow> (Inl TypeError, s)
     | Some pd \<Rightarrow> (Inr (), store d (pd\<lparr>ukeys := Some (length (list_heap s))\<rparr>)
                               (s\<lparr>list_heap := list_heap s @ [[]]\<rparr>)))"

definition keysfn_append :: "val \<Rightarrow> val \<Rightarrow> (unit, 'w) M" where
  "keysfn_append d key = (\<lambda>s. case deref s d of
       None \<Rightarrow> (Inl TypeError, s)
     | Some pd \<Rightarrow> (case ukeys pd of
          None \<Rightarrow> (Inl KeyError, s)
        | Some l \<Rightarrow> (case list_at s l of
             None \<Rightarrow> (Inl TypeError, s)
           | Some ks \<Rightarrow> (Inr (), s\<lparr>list_heap := (list_heap s)[l := ks @ [key]]\<rparr>))))"

text \<open>
  \<^verbatim>\<open>d.update(x)\<close> once the method is found: a dictionary \<open>x\<close> is merged entry by entry, the
  \<^verbatim>\<open>_dictKeys\<close> entry included (after which \<open>d\<close> and \<open>x\<close> refer to the same list object); the
  empty string is an empty sequence of pairs; a longer string yields characters, which are
  not pairs; anything else is not iterable.
\<close>

definition merge_dict :: "pydict \<Rightarrow> pydict \<Rightarrow> pydict" where
  "merge_dict pd src =
     pd\<lparr>items := fold (\<lambda>(k, v). AList.update k v) (items src) (items pd),
        ukeys := (case ukeys src of None \<Rightarrow> ukeys pd | Some l \<Rightarrow> Some l)\<rparr>"

definition dict_update :: "val \<Rightarrow> val \<Rightarrow> (unit, 'w) M" where
  "dict_update d x = (\<lambda>s. case deref s d of
       None \<Rightarrow> (Inl AttributeError, s)
     | Some pd \<Rightarrow> (case deref s x of
          Some src \<Rightarrow> (Inr (), store d (merge_dict pd src) s)
        | None \<Rightarrow> (case x of
             VStr str \<Rightarrow> (if str = [] then (Inr (), s) else (Inl ValueError, s))
           | _ \<Rightarrow> (Inl TypeError, s))))"

section \<open>The override registry\<close>

text \<open>
  \<^verbatim>\<open>data.__concept__\<close> is a dictionary from checked operations (function objects) to
  overrides. The registry gives, for a value, the table attached to it, or nothing where
  the attribute lookup raises \<^verbatim>\<open>AttributeError\<close>. A table may have no entry for an operation,
  and an entry may be \<^verbatim>\<open>None\<close>.
\<close>

datatype opid = OpRead | OpWrite | OpFun string

type_synonym 'w override = "val list \<Rightarrow> (val, 'w) M"

type_synonym 'w table = "opid \<Rightarrow> 'w override option option"

type_synonym 'w registry = "val \<Rightarrow> 'w table option"

definition checkOverride :: "'w registry \<Rightarrow> val \<Rightarrow> opid \<Rightarrow> val list \<Rightarrow> (val, 'w) M" where
  "checkOverride reg data code args =
     (case reg data of
        None \<Rightarrow> ret VNone
      | Some tbl \<Rightarrow>
          (case tbl code of
             None \<Rightarrow> raise KeyError
           | Some None \<Rightarrow> ret VNone
           | Some (Some override) \<Rightarrow> override args))"

text \<open>
  \<^verbatim>\<open>checked(func)\<close>: the wrapper \<^verbatim>\<open>check\<close> is its own operation identity (\<open>code\<close> here).
  Keyword arguments are scanned after the positional ones in the same way; the model
  passes them as further elements of \<open>args\<close>.
\<close>

fun check_scan :: "'w registry \<Rightarrow> opid \<Rightarrow> 'w comp \<Rightarrow> val list \<Rightarrow> val list \<Rightarrow> (val, 'w) M" where
  "check_scan reg code func args [] = func args"
| "check_scan reg code func args (v # vs) =
     bnd (checkOverride reg v code args)
       (\<lambda>result. if result \<noteq> VNone then ret result else check_scan reg code func args vs)"

definition checked :: "'w registry \<Rightarrow> opid \<Rightarrow> 'w comp \<Rightarrow> 'w comp" where
  "checked reg code func = (\<lambda>args. check_scan reg code func args args)"

section \<open>Dictionaries with unhashable keys\<close>

definition dictSet :: "val \<Rightarrow> val \<Rightarrow> val \<Rightarrow> (val, 'w) M" where
  "dictSet d key value =
     bnd (try_except (setitem d key value) TypeError
            (bnd (py_in (VId key) d) (\<lambda>present.
             bnd (if \<not> present
                  then bnd (keysfn_in d) (\<lambda>has.
                       bnd (if \<not> has then keysfn_init d else ret ()) (\<lambda>_.
                       keysfn_append d key))
                  else ret ()) (\<lambda>_.
             setitem d (VId key) value))))
       (\<lambda>_. ret VNone)"

definition dictCreate :: "val \<Rightarrow> val \<Rightarrow> (val, 'w) M" where
  "dictCreate d key =
     bnd (py_in (VId key) d) (\<lambda>present.
     if present then getitem d (VId key)
     else bnd (try_except
                 (bnd (py_in key d) (\<lambda>found.
                  if found then bnd (getitem d key) (\<lambda>v. ret (Some v)) else ret None))
                 TypeError (ret None)) (\<lambda>early.
          case early of
            Some v \<Rightarrow> ret v
          | None \<Rightarrow> bnd new_dict (\<lambda>d'. bnd (dictSet d key d') (\<lambda>_. ret d'))))"

definition dictGet :: "val \<Rightarrow> val \<Rightarrow> (val, 'w) M" where
  "dictGet d key =
     bnd (py_in (VId key) d) (\<lambda>present.
     if present then getitem d (VId key)
     else try_except (getitem d key) TypeError (raise KeyError))"

text \<open>
  \<^verbatim>\<open>_dictKeys(d)\<close> is a generator, and the module consumes it in one place, by a \<^verbatim>\<open>for\<close> loop
  that runs to its end. The model is that loop: \<^verbatim>\<open>for k in _dictKeys(d): body(k)\<close> is the
  code of the generator with \<open>body\<close> run at every \<^verbatim>\<open>yield\<close>. So the body has run on every
  key of the list \<^verbatim>\<open>d[_dictKeys]\<close> before \<^verbatim>\<open>ids\<close> is computed and before the keys of \<open>d\<close>
  are looked at, and both are taken from \<open>d\<close> as the body has left it.

  Each of the two inner loops goes through the elements that the list, respectively the
  dictionary, has when the loop is entered. For the body that \<^verbatim>\<open>commit\<close> runs this is what
  Python does: that body changes no list object, and on a hashable key it raises before it
  changes anything (\<open>apply_buffered_lists\<close> and \<open>apply_buffered_hashable\<close> below).
\<close>

fun for_each :: "val list \<Rightarrow> (val \<Rightarrow> (unit, 'w) M) \<Rightarrow> (unit, 'w) M" where
  "for_each [] body = ret ()"
| "for_each (k # ks) body = bnd (body k) (\<lambda>_. for_each ks body)"

text \<open>The keys of \<^verbatim>\<open>d.keys()\<close> other than \<^verbatim>\<open>_dictKeys\<close>.\<close>

definition dict_keys :: "val \<Rightarrow> (val list, 'w) M" where
  "dict_keys d = (\<lambda>s. case deref s d of
       None \<Rightarrow> (Inl AttributeError, s)
     | Some pd \<Rightarrow> (Inr (map fst (items pd)), s))"

definition dictKeys :: "val \<Rightarrow> (val \<Rightarrow> (unit, 'w) M) \<Rightarrow> (unit, 'w) M" where
  "dictKeys d body =
     bnd (keysfn_in d) (\<lambda>has.
     if has
     then bnd (keysfn_get d) (\<lambda>listed.
          bnd (for_each listed body) (\<lambda>_.
          bnd (keysfn_get d) (\<lambda>ks.
          bnd (dict_keys d) (\<lambda>all_keys.
          for_each (filter (\<lambda>k. k \<notin> set (map VId ks)) all_keys) body))))
     else bnd (dict_keys d) (\<lambda>all_keys. for_each all_keys body))"

section \<open>Read and write\<close>

text \<open>
  The lookup that \<^verbatim>\<open>read\<close> makes first in \<^verbatim>\<open>commit.writes\<close> and then in \<^verbatim>\<open>commit.reads\<close>:
  \<^verbatim>\<open>if buf is not None: try: return ... except KeyError: pass\<close>. The result \<open>Some v\<close> means
  that \<^verbatim>\<open>read\<close> returns \<open>v\<close>, \<open>None\<close> that it goes on.
\<close>

definition buffered :: "val \<Rightarrow> val \<Rightarrow> val \<Rightarrow> (val option, 'w) M" where
  "buffered buf d key =
     (if buf \<noteq> VNone
      then try_except
             (bnd (if key = VNone then dictGet buf d
                   else bnd (dictGet buf d) (\<lambda>t. dictGet t key))
                (\<lambda>v. ret (Some v)))
             KeyError (ret None)
      else ret None)"

text \<open>\<^verbatim>\<open>dict[key] if key is not None else dict\<close>\<close>

definition fetch :: "val \<Rightarrow> val \<Rightarrow> (val, 'w) M" where
  "fetch d key = (if key \<noteq> VNone then getitem d key else ret d)"

definition read :: "'w registry \<Rightarrow> val \<Rightarrow> val \<Rightarrow> (val, 'w) M" where
  "read reg d key =
     bnd (\<lambda>s. buffered (commit_writes s) d key s) (\<lambda>hit.
     case hit of
       Some v \<Rightarrow> ret v
     | None \<Rightarrow>
     bnd (\<lambda>s. buffered (commit_reads s) d key s) (\<lambda>hit.
     case hit of
       Some v \<Rightarrow> ret v
     | None \<Rightarrow>
     try_except
       (bnd (fetch d key) (\<lambda>value.
        bnd (checkOverride reg value OpRead [value]) (\<lambda>result.
        if result \<noteq> VNone
        then bnd (\<lambda>s. if key \<noteq> VNone \<and> commit_reads s \<noteq> VNone
                       then (if key = VNone then dictSet (commit_reads s) d result
                             else bnd (dictCreate (commit_reads s) d)
                                    (\<lambda>t. dictSet t key result)) s
                       else (Inr VNone, s))
               (\<lambda>_. ret result)
        else ret value)))
       KeyError (ret VNone)))"

definition "write" :: "'w registry \<Rightarrow> val \<Rightarrow> val \<Rightarrow> val \<Rightarrow> (val, 'w) M" where
  "write reg d key new =
     (\<lambda>s. if commit_writes s \<noteq> VNone
          then (if key = VNone then dictSet (commit_writes s) d new
                else bnd (dictCreate (commit_writes s) d) (\<lambda>t. dictSet t key new)) s
          else try_except
                 (bnd (fetch d key) (\<lambda>prev.
                  bnd (checkOverride reg prev OpWrite [prev, new]) (\<lambda>result.
                  if result \<noteq> VNone
                  then bnd (if key \<noteq> VNone then setitem d key result else ret ())
                         (\<lambda>_. ret result)
                  else bnd (if key \<noteq> VNone then setitem d key new else ret ())
                         (\<lambda>_. ret new))))
                 KeyError
                 (bnd (if key \<noteq> VNone then setitem d key new else ret ()) (\<lambda>_. ret new)) s)"

section \<open>Journal and commit\<close>

definition set_context :: "val \<Rightarrow> val \<Rightarrow> (unit, 'w) M" where
  "set_context r w = (\<lambda>s. (Inr (), s\<lparr>commit_reads := r, commit_writes := w\<rparr>))"

text \<open>
  Keyword arguments reach \<open>func\<close> unchanged, like the positional ones; \<open>args\<close> stands for
  both. There is no \<^verbatim>\<open>try\<close> in \<^verbatim>\<open>journal\<close>: when \<open>func\<close> raises, the lines after the call
  do not run.
\<close>

definition journal :: "'w comp \<Rightarrow> val list \<Rightarrow> (effect_set, 'w) M" where
  "journal func args =
     (\<lambda>s0. let prev_reads = commit_reads s0; prev_writes = commit_writes s0 in
       (bnd new_dict (\<lambda>r.
        bnd (\<lambda>s. (Inr (), s\<lparr>commit_reads := r\<rparr>)) (\<lambda>_.
        bnd new_dict (\<lambda>w.
        bnd (\<lambda>s. (Inr (), s\<lparr>commit_writes := w\<rparr>)) (\<lambda>_.
        bnd (keysfn_init w) (\<lambda>_.
        bnd (func args) (\<lambda>result.
        bnd (set_context prev_reads prev_writes) (\<lambda>_.
        ret (result, r, w))))))))) s0)"

text \<open>
  \<^verbatim>\<open>dict.update(_dictGet(w, dict))\<close>: the method is looked up first (only a dictionary has
  it), then the argument is evaluated, then the method runs.
\<close>

definition update_method :: "val \<Rightarrow> (unit, 'w) M" where
  "update_method d = (\<lambda>s. case deref s d of None \<Rightarrow> (Inl AttributeError, s) | Some pd \<Rightarrow> (Inr (), s))"

text \<open>The body of the loop of \<^verbatim>\<open>commit\<close>.\<close>

definition apply_buffered :: "val \<Rightarrow> val \<Rightarrow> (unit, 'w) M" where
  "apply_buffered w d =
     bnd (update_method d) (\<lambda>_.
     bnd (dictGet w d) (\<lambda>x.
     dict_update d x))"

definition commit :: "effect_set \<Rightarrow> bool \<Rightarrow> (val, 'w) M" where
  "commit result_and_write_journal dont =
     bnd (if \<not> dont
          then (case result_and_write_journal of (result, r, w) \<Rightarrow>
                  dictKeys w (apply_buffered w))
          else ret ())
       (\<lambda>_. ret (fst result_and_write_journal))"

section \<open>Static storage\<close>


definition swd_setattr :: "'w registry \<Rightarrow> val \<Rightarrow> string \<Rightarrow> val \<Rightarrow> (val, 'w) M" where
  "swd_setattr reg self_dict key value =
     (if self_dict \<noteq> VNone
      then bnd (write reg self_dict (VStr key) value) (\<lambda>_. ret VNone)
      else ret VNone)"

text \<open>
  \<^verbatim>\<open>static(**kwargs)\<close> creates the storage object once, from the keyword arguments; the
  function modifier passes it as the first argument of every call.
\<close>

definition static :: "(string \<times> val) list \<Rightarrow> (val, 'w) M" where
  "static kwargs = (\<lambda>s. (Inr (VDict (length (heap s))),
       s\<lparr>heap := heap s @ [\<lparr>items = map (\<lambda>(k, v). (VStr k, v)) kwargs, ukeys = None\<rparr>]\<rparr>))"

definition funcModifier :: "val \<Rightarrow> 'w comp \<Rightarrow> 'w comp" where
  "funcModifier dict func = (\<lambda>args. func (dict # args))"

section \<open>Goals and optimizers\<close>

text \<open>
  \<^verbatim>\<open>on_goal(do)\<close>. With an optimizer already registered, the new \<^verbatim>\<open>goal.do\<close> is the closure
  \<^verbatim>\<open>combine\<close> over \<^verbatim>\<open>prev\<close> (the registered one) and \<^verbatim>\<open>do\<close> (the new one).
\<close>

definition on_goal :: "strat \<Rightarrow> (val, 'w) M" where
  "on_goal do = (\<lambda>s.
     if \<not> goal_in_goal s then (Inr VNone, s)
     else if goal_in_do s then (Inr VNone, s)
     else (case goal_do s of
             None \<Rightarrow> (Inr VNone, s\<lparr>goal_do := Some do\<rparr>)
           | Some prev \<Rightarrow> (Inr VNone, s\<lparr>goal_do := Some (Combine prev do)\<rparr>)))"

text \<open>
  The measure is a pure scoring function into a linear order. The loop of \<^verbatim>\<open>repeat\<close>:
  \<^verbatim>\<open>for i in range(tries)\<close>, with the pair \<^verbatim>\<open>(bestJ, bestM)\<close> carried along.
\<close>

primrec repeat_loop ::
  "nat \<Rightarrow> (val \<Rightarrow> 'm::linorder) \<Rightarrow> 'w comp \<Rightarrow> val list \<Rightarrow> effect_set \<times> 'm \<Rightarrow> (effect_set \<times> 'm, 'w) M"
where
  "repeat_loop 0 measure' func args best = ret best"
| "repeat_loop (Suc n) measure' func args best =
     bnd (journal func args) (\<lambda>j.
     bnd (commit j True) (\<lambda>r.
     (let m = measure' r in
      repeat_loop n measure' func args (if m < snd best then (j, m) else best))))"

text \<open>
  The closure \<^verbatim>\<open>repeat\<close> of \<^verbatim>\<open>minimize\<close>. Indexing \<^verbatim>\<open>goal.journaled\<close> while it is \<^verbatim>\<open>None\<close>
  raises \<^verbatim>\<open>TypeError\<close>.
\<close>

definition repeat :: "nat \<Rightarrow> (val \<Rightarrow> 'm::linorder) \<Rightarrow> 'w comp \<Rightarrow> 'w comp" where
  "repeat tries measure' func args = (\<lambda>s.
     case goal_journaled s of
       None \<Rightarrow> (Inl TypeError, s)
     | Some journaled \<Rightarrow>
         (bnd (commit journaled True) (\<lambda>r0.
          bnd (repeat_loop tries measure' func args (journaled, measure' r0)) (\<lambda>best.
          commit (fst best) False))) s)"

text \<open>
  Calling a registered optimizer with \<^verbatim>\<open>(measure, func, *args)\<close>. For \<^verbatim>\<open>combine\<close> this is
  \<^verbatim>\<open>prev(measure, redo, *args)\<close>, where \<^verbatim>\<open>redo(*args)\<close> is \<^verbatim>\<open>do(measure, func, *args)\<close>.
\<close>

type_synonym ('m, 'w) strategies = "string \<Rightarrow> (val \<Rightarrow> 'm) \<Rightarrow> 'w comp \<Rightarrow> 'w comp"

primrec call_strat ::
  "('m::linorder, 'w) strategies \<Rightarrow> strat \<Rightarrow> (val \<Rightarrow> 'm) \<Rightarrow> 'w comp \<Rightarrow> 'w comp"
where
  "call_strat env (Named n) measure' func = env n measure' func"
| "call_strat env (Repeat tries) measure' func = repeat tries measure' func"
| "call_strat env (Combine prev do) measure' func =
     call_strat env prev measure' (\<lambda>args. call_strat env do measure' func args)"

definition goal ::
  "('m::linorder, 'w) strategies \<Rightarrow> (val \<Rightarrow> 'm) \<Rightarrow> 'w comp \<Rightarrow> 'w comp"
where
  "goal env measure' func args = (\<lambda>s0.
     let prev_do = goal_do s0; prev_in_goal = goal_in_goal s0 in
     (bnd (\<lambda>s. (Inr (), s\<lparr>goal_do := None, goal_in_goal := True\<rparr>)) (\<lambda>_.
      bnd (journal func args) (\<lambda>j.
      bnd (\<lambda>s. (Inr (), s\<lparr>goal_journaled := Some j\<rparr>)) (\<lambda>_.
      (\<lambda>s. case goal_do s of
             Some do \<Rightarrow>
               (let prev_in_do = goal_in_do s in
                bnd (\<lambda>s. (Inr (), s\<lparr>goal_in_do := True\<rparr>)) (\<lambda>_.
                bnd (call_strat env do measure' func args) (\<lambda>result.
                bnd (\<lambda>s. (Inr (), s\<lparr>goal_in_do := prev_in_do\<rparr>)) (\<lambda>_.
                bnd (\<lambda>s. (Inr (), s\<lparr>goal_do := prev_do, goal_in_goal := prev_in_goal\<rparr>)) (\<lambda>_.
                ret result))))) s
           | None \<Rightarrow>
               (bnd (\<lambda>s. (Inr (), s\<lparr>goal_do := prev_do, goal_in_goal := prev_in_goal\<rparr>)) (\<lambda>_.
                (\<lambda>s. case goal_journaled s of
                       None \<Rightarrow> (Inl TypeError, s)
                     | Some journaled \<Rightarrow> commit journaled False s))) s))))) s0)"

text \<open>
  \<^verbatim>\<open>minimize(measure, func, *args, tries)\<close>. Without \<open>func\<close> it registers \<^verbatim>\<open>repeat\<close> and
  returns \<^verbatim>\<open>None\<close>; with \<open>func\<close> it runs \<^verbatim>\<open>goal\<close> on \<^verbatim>\<open>immediately_minimize\<close>, which makes
  that registration and then calls \<open>func\<close>.
\<close>

definition minimize ::
  "('m::linorder, 'w) strategies \<Rightarrow> (val \<Rightarrow> 'm) \<Rightarrow> 'w comp option \<Rightarrow> val list \<Rightarrow> nat \<Rightarrow> (val, 'w) M"
where
  "minimize env measure' func args tries =
     (case func of
        None \<Rightarrow> on_goal (Repeat tries)
      | Some f \<Rightarrow>
          goal env measure' (\<lambda>args'. bnd (on_goal (Repeat tries)) (\<lambda>_. f args')) args)"

definition maximize ::
  "('m::{linorder,uminus}, 'w) strategies \<Rightarrow> (val \<Rightarrow> 'm) \<Rightarrow> 'w comp option \<Rightarrow> val list \<Rightarrow> nat \<Rightarrow> (val, 'w) M"
where
  "maximize env measure' func args tries = minimize env (\<lambda>r. - measure' r) func args tries"

section \<open>Example objects, states and computations\<close>

text \<open>No value carries an override table.\<close>

definition no_overrides :: "'w registry" where
  "no_overrides v = None"

text \<open>
  The class \<^verbatim>\<open>Bounded\<close> with \<^verbatim>\<open>v = None\<close>: \<^verbatim>\<open>_boundedRead\<close> returns \<^verbatim>\<open>random.uniform(a, b)\<close>
  and \<^verbatim>\<open>_boundedWrite\<close> returns \<^verbatim>\<open>self\<close>. The random source is the world: the list of the
  deviates it will hand out, in order (an exhausted list hands out 0).
\<close>

definition boundedRead :: "int list override" where
  "boundedRead args = (\<lambda>s. case world s of
       [] \<Rightarrow> (Inr (VInt 0), s)
     | x # xs \<Rightarrow> (Inr (VInt x), s\<lparr>world := xs\<rparr>))"

definition boundedWrite :: "int list override" where
  "boundedWrite args = (case args of self # rest \<Rightarrow> ret self | [] \<Rightarrow> raise TypeError)"

definition bounded_registry :: "int list registry" where
  "bounded_registry v =
     (case v of
        VObj a \<Rightarrow> Some (\<lambda>code. if code = OpRead then Some (Some boundedRead)
                               else if code = OpWrite then Some (Some boundedWrite)
                               else None)
      | _ \<Rightarrow> None)"

text \<open>A class whose table \<^verbatim>\<open>__concept__ = { write: ... }\<close> has no entry for \<^verbatim>\<open>read\<close>.\<close>

definition write_only_registry :: "int list registry" where
  "write_only_registry v =
     (case v of
        VObj a \<Rightarrow> Some (\<lambda>code. if code = OpWrite then Some (Some boundedWrite) else None)
      | _ \<Rightarrow> None)"

text \<open>
  The state of a process that has created the dictionary \<^verbatim>\<open>c = {'a': x}\<close> and nothing else:
  no transaction, no goal.
\<close>

definition one_dict :: "val \<Rightarrow> 'w \<Rightarrow> 'w state" where
  "one_dict x w0 =
     \<lparr>heap = [\<lparr>items = [(VStr ''a'', x)], ukeys = None\<rparr>], list_heap = [],
      commit_reads = VNone, commit_writes = VNone,
      goal_journaled = None, goal_do = None, goal_in_do = False, goal_in_goal = False,
      world = w0\<rparr>"

text \<open>
  \<^verbatim>\<open>lambda: (write(c, new=read(c)), write(c, 'a', 5))[1]\<close>: the whole value of \<open>c\<close> is read and
  written back, then a key of \<open>c\<close> is written.
\<close>

definition write_whole_then_key :: "unit comp" where
  "write_whole_then_key args =
     bnd (read no_overrides (VDict 0) VNone) (\<lambda>whole.
     bnd (write no_overrides (VDict 0) VNone whole) (\<lambda>_.
     write no_overrides (VDict 0) (VStr ''a'') (VInt 5)))"

text \<open>The same computation, followed by a failure.\<close>

definition write_whole_then_key_then_fail :: "unit comp" where
  "write_whole_then_key_then_fail args =
     bnd (read no_overrides (VDict 0) VNone) (\<lambda>whole.
     bnd (write no_overrides (VDict 0) VNone whole) (\<lambda>_.
     bnd (write no_overrides (VDict 0) (VStr ''a'') (VInt 5)) (\<lambda>_.
     raise (Raised ''boom''))))"

text \<open>
  The state in which \<^verbatim>\<open>journal\<close> calls \<open>func\<close>: two fresh dictionaries \<open>r\<close> and \<open>w\<close> are the
  context, and \<^verbatim>\<open>w[_dictKeys] = []\<close> has run, which has created a list object. The state in which \<^verbatim>\<open>goal\<close> calls \<^verbatim>\<open>journal\<close>
  has the frame \<^verbatim>\<open>(goal.do, goal.in_goal) = (None, True)\<close>.
\<close>

definition fresh_context :: "'w state \<Rightarrow> 'w state" where
  "fresh_context s =
     s\<lparr>commit_reads := VDict (length (heap s)),
       commit_writes := VDict (Suc (length (heap s))),
       list_heap := list_heap s @ [[]],
       heap := heap s @ [\<lparr>items = [], ukeys = None\<rparr>,
                         \<lparr>items = [], ukeys = Some (length (list_heap s))\<rparr>]\<rparr>"

definition goal_frame :: "'w state \<Rightarrow> 'w state" where
  "goal_frame s = s\<lparr>goal_do := None, goal_in_goal := True\<rparr>"

text \<open>\<^verbatim>\<open>def failing_comp(): raise Exception('boom')\<close>\<close>

definition failing_comp :: "'w comp" where
  "failing_comp args = raise (Raised ''boom'')"

text \<open>\<^verbatim>\<open>lambda: write(c, 'a', 5)\<close>\<close>

definition write_a_5 :: "'w comp" where
  "write_a_5 args = write no_overrides (VDict 0) (VStr ''a'') (VInt 5)"

text \<open>
  An environment in which every named strategy just runs the computation it is given, and
  a measure: the integer itself, 0 for any other value.
\<close>

definition no_strategies :: "(int, 'w) strategies" where
  "no_strategies n measure' func = func"

definition score :: "val \<Rightarrow> int" where
  "score v = (case v of VInt i \<Rightarrow> i | _ \<Rightarrow> 0)"


text \<open>
  Inside one transaction, two reads of the same address: the whole value of a \<^verbatim>\<open>Bounded\<close>
  object, and the key \<^verbatim>\<open>'a'\<close> of the dictionary that holds one.
\<close>

definition read_twice_whole :: "int list comp" where
  "read_twice_whole args =
     bnd (read bounded_registry (VObj 0) VNone) (\<lambda>_. read bounded_registry (VObj 0) VNone)"

definition read_twice_keyed :: "int list comp" where
  "read_twice_keyed args =
     bnd (read bounded_registry (VDict 0) (VStr ''a''))
       (\<lambda>_. read bounded_registry (VDict 0) (VStr ''a''))"

text \<open>
  Whole-value writes: \<^verbatim>\<open>write(5, new=7)\<close>, \<^verbatim>\<open>write(x, new=7)\<close> for a \<^verbatim>\<open>Bounded\<close> object \<open>x\<close>,
  \<^verbatim>\<open>write(c, new=7)\<close> for the dictionary \<open>c\<close>, and the first followed by \<^verbatim>\<open>read(5)\<close>.
\<close>

definition write_whole_number :: "unit comp" where
  "write_whole_number args = write no_overrides (VInt 5) VNone (VInt 7)"

definition write_whole_object :: "int list comp" where
  "write_whole_object args = write bounded_registry (VObj 0) VNone (VInt 7)"

definition write_whole_dict :: "unit comp" where
  "write_whole_dict args = write no_overrides (VDict 0) VNone (VInt 7)"

definition write_whole_then_read :: "unit comp" where
  "write_whole_then_read args =
     bnd (write no_overrides (VInt 5) VNone (VInt 7)) (\<lambda>_. read no_overrides (VInt 5) VNone)"

text \<open>\<^verbatim>\<open>lambda: write(commit.writes, 'k', 1)\<close>: the container is the write-buffer itself.\<close>

definition write_into_buffer :: "unit comp" where
  "write_into_buffer args =
     (\<lambda>s. write no_overrides (commit_writes s) (VStr ''k'') (VInt 1) s)"

text \<open>\<^verbatim>\<open>lambda *args: 1\<close>, to be wrapped by \<^verbatim>\<open>checked\<close>.\<close>

definition const_one :: "'w comp" where
  "const_one args = ret (VInt 1)"

text \<open>
  Two strategies: \<^verbatim>\<open>A\<close> runs the computation it is given and adds 10 to an integer result,
  any other name returns 1 without running anything. The computation registers \<open>a\<close>, then
  \<open>b\<close>, and returns \<open>x\<close>.
\<close>

definition two_strategies :: "(int, 'w) strategies" where
  "two_strategies n measure' func args =
     (if n = ''A''
      then bnd (func args) (\<lambda>r. ret (case r of VInt i \<Rightarrow> VInt (i + 10) | _ \<Rightarrow> r))
      else ret (VInt 1))"

definition register_both :: "string \<Rightarrow> string \<Rightarrow> val \<Rightarrow> 'w comp" where
  "register_both a b x args =
     bnd (on_goal (Named a)) (\<lambda>_. bnd (on_goal (Named b)) (\<lambda>_. ret x))"

text \<open>
  The state in which \<^verbatim>\<open>goal\<close>, entered in \<open>s\<close>, calls the optimizer \<open>d\<close> that a computation
  has registered before returning \<open>x\<close> without reading or writing: the frame is open, the
  two buffers of the baseline run exist (and the list object of the write-buffer), the
  baseline effect set is in \<^verbatim>\<open>goal.journaled\<close> and \<^verbatim>\<open>goal.in_do\<close> is set.
\<close>

definition at_call :: "strat \<Rightarrow> val \<Rightarrow> 'w state \<Rightarrow> 'w state" where
  "at_call d x s =
     s\<lparr>goal_in_goal := True,
       list_heap := list_heap s @ [[]],
       heap := heap s @ [\<lparr>items = [], ukeys = None\<rparr>,
                         \<lparr>items = [], ukeys = Some (length (list_heap s))\<rparr>],
       goal_do := Some d,
       goal_journaled := Some (x, VDict (length (heap s)), VDict (Suc (length (heap s)))),
       goal_in_do := True\<rparr>"

text \<open>
  In the words of the specification: \<open>n\<close> fresh runs of \<^verbatim>\<open>journal(computation, args)\<close>, one
  after the other, and, of a baseline and a list of runs, the effect set with the smallest
  measure seen so far, where a later run replaces the retained one only when its measure
  is strictly smaller.
\<close>

primrec resample :: "nat \<Rightarrow> 'w comp \<Rightarrow> val list \<Rightarrow> (effect_set list, 'w) M" where
  "resample 0 func args = ret []"
| "resample (Suc n) func args =
     bnd (journal func args) (\<lambda>j. bnd (resample n func args) (\<lambda>js. ret (j # js)))"

definition keep_best ::
  "(val \<Rightarrow> 'm::linorder) \<Rightarrow> effect_set \<times> 'm \<Rightarrow> effect_set list \<Rightarrow> effect_set \<times> 'm"
where
  "keep_best m best js =
     fold (\<lambda>j best. if m (fst j) < snd best then (j, m (fst j)) else best) js best"

text \<open>
  \<^verbatim>\<open>def f(): minimize(measure, tries=2); return random.uniform(...)\<close>, and the state in which
  \<^verbatim>\<open>goal(measure, f)\<close> calls the registered optimizer when the random source hands out 4, 2
  and 9: the baseline run has drawn 4.
\<close>

definition minimizing_draw :: "int list comp" where
  "minimizing_draw args = bnd (minimize no_strategies score None [] 2) (\<lambda>_. boundedRead [])"

definition at_dispatch :: "int list state" where
  "at_dispatch =
     (snd (journal minimizing_draw [] (goal_frame (one_dict (VInt 1) [4, 2, 9]))))
       \<lparr>goal_journaled := Some (VInt 4, VDict 1, VDict 2), goal_in_do := True\<rparr>"

text \<open>
  The same computation with another measure given to \<^verbatim>\<open>minimize\<close> than to \<^verbatim>\<open>goal\<close>:
  \<^verbatim>\<open>def f(): minimize(lambda r: -measure(r), tries=2); return random.uniform(...)\<close>, run as
  \<^verbatim>\<open>goal(measure, f)\<close>. This is what \<^verbatim>\<open>maximize(measure, tries=2)\<close> in the body of \<open>f\<close> amounts to.
\<close>

definition neg_score :: "val \<Rightarrow> int" where
  "neg_score r = - score r"

definition minimizing_neg_draw :: "int list comp" where
  "minimizing_neg_draw args =
     bnd (minimize no_strategies neg_score None [] 2) (\<lambda>_. boundedRead [])"

definition maximizing_draw :: "int list comp" where
  "maximizing_draw args = bnd (maximize no_strategies score None [] 2) (\<lambda>_. boundedRead [])"

definition at_neg_dispatch :: "int list state" where
  "at_neg_dispatch =
     (snd (journal minimizing_neg_draw [] (goal_frame (one_dict (VInt 1) [4, 2, 9]))))
       \<lparr>goal_journaled := Some (VInt 4, VDict 1, VDict 2), goal_in_do := True\<rparr>"


section \<open>Basic facts\<close>

lemmas monad_defs = ret_def raise_def bnd_def try_except_def

lemmas prim_defs = deref_def store_def new_dict_def py_in_def keysfn_in_def getitem_def
  setitem_def keysfn_get_def keysfn_init_def keysfn_append_def hashable_def list_at_def

lemma bnd_ret [simp]: "bnd (ret x) f = f x"
  by (simp add: bnd_def ret_def)

lemma bnd_raise [simp]: "bnd (raise e) f = raise e"
  by (simp add: bnd_def raise_def)

lemma bnd_Inr: "m s = (Inr x, s') \<Longrightarrow> bnd m f s = f x s'"
  by (simp add: bnd_def)

lemma bnd_Inl: "m s = (Inl e, s') \<Longrightarrow> bnd m f s = (Inl e, s')"
  by (simp add: bnd_def)

section \<open>Buffering\<close>

text \<open>
  A journaled run of one \<^verbatim>\<open>write(c, k, v)\<close>, from any state and for any container, key
  (\<^verbatim>\<open>None\<close> or not) and value: the run returns \<^verbatim>\<open>None\<close> as its result, restores the context,
  and the only change to the state is that fresh dictionaries and lists (the buffers) were
  created.
\<close>

lemma journal_write_fresh:
  "\<exists>bufs ls. journal (\<lambda>_. write reg d key new) args s =
     (Inr (VNone, VDict (length (heap s)), VDict (Suc (length (heap s)))),
      s\<lparr>list_heap := list_heap s @ ls, heap := heap s @ bufs\<rparr>)"
  unfolding journal_def write_def dictSet_def dictCreate_def monad_defs prim_defs Let_def
    set_context_def
  apply (cases "hashable d"; cases "hashable key"; cases "key = VNone")
         apply (simp_all add: nth_append hashable_def list_update_append)
     apply (rule exI, rule exI, rule refl)+
  done

text \<open>
  One buffered write in any transaction: a dictionary \<open>a\<close> other than the write-buffer
  itself keeps its content, provided the slot of the container \<open>c\<close> in the write-buffer
  does not hold a reference to \<open>a\<close>. (The slot holds such a reference after a whole-value
  write of the dictionary \<open>a\<close> to \<open>c\<close>; see C1 below.)
\<close>

lemma dictSet_frame:
  assumes "dictSet t key v s = (r, s')" and "t \<noteq> VDict a"
  shows "heap s' ! a = heap s ! a \<and> length (heap s') = length (heap s)"
proof (cases "deref s t")
  case None
  with assms show ?thesis
    by (simp add: dictSet_def monad_defs setitem_def py_in_def)
next
  case (Some pd)
  then obtain b where t: "t = VDict b" and b: "b < length (heap s)"
    by (auto simp: deref_def split: val.splits if_splits)
  with assms have ab: "a \<noteq> b" by simp
  show ?thesis
  proof (cases "hashable key")
    case True
    with assms Some t b ab show ?thesis
      by (auto simp: dictSet_def monad_defs setitem_def store_def)
  next
    case False
    with assms Some t b ab show ?thesis
      by (auto simp: dictSet_def monad_defs prim_defs split: if_splits option.splits)
  qed
qed

lemma dictCreate_frame:
  assumes "dictCreate (VDict w) c s = (r, s')" and "a < length (heap s)" and "a \<noteq> w"
      and "map_of (items (heap s ! w)) (VId c) \<noteq> Some (VDict a)"
      and "map_of (items (heap s ! w)) c \<noteq> Some (VDict a)"
  shows "heap s' ! a = heap s ! a \<and> (\<forall>t. r = Inr t \<longrightarrow> t \<noteq> VDict a)"
proof (cases "w < length (heap s)")
  case False
  with assms show ?thesis
    by (auto simp: dictCreate_def monad_defs prim_defs)
next
  case w: True
  show ?thesis
  proof (cases "map_of (items (heap s ! w)) (VId c)")
    case (Some u)
    with assms w show ?thesis
      by (auto simp: dictCreate_def monad_defs prim_defs)
  next
    case None
    show ?thesis
    proof (cases "hashable c \<and> map_of (items (heap s ! w)) c \<noteq> None")
      case True
      with assms w None show ?thesis
        by (auto simp: dictCreate_def monad_defs prim_defs)
    next
      case False
      have "dictCreate (VDict w) c s =
              bnd new_dict (\<lambda>d'. bnd (dictSet (VDict w) c d') (\<lambda>_. ret d')) s"
        using w None False
        by (cases "hashable c") (auto simp: dictCreate_def monad_defs py_in_def getitem_def deref_def hashable_def)
      moreover obtain x s1 where
        ds: "dictSet (VDict w) c (VDict (length (heap s)))
               (s\<lparr>heap := heap s @ [\<lparr>items = [], ukeys = None\<rparr>]\<rparr>) = (x, s1)"
        by (cases "dictSet (VDict w) c (VDict (length (heap s)))
               (s\<lparr>heap := heap s @ [\<lparr>items = [], ukeys = None\<rparr>]\<rparr>)")
      ultimately have "s' = s1" and "\<forall>t. r = Inr t \<longrightarrow> t = VDict (length (heap s))"
        using assms(1) by (auto simp: new_dict_def monad_defs split: sum.splits)
      with dictSet_frame[OF ds, of a] assms(2,3) show ?thesis
        by (auto simp: nth_append)
    qed
  qed
qed

lemma buffered_write_frame:
  assumes "commit_writes s = VDict w" and "a < length (heap s)" and "a \<noteq> w"
      and "map_of (items (heap s ! w)) (VId c) \<noteq> Some (VDict a)"
      and "map_of (items (heap s ! w)) c \<noteq> Some (VDict a)"
  shows "heap (snd (write reg c k v s)) ! a = heap s ! a"
proof (cases "k = VNone")
  case True
  obtain r s' where d: "dictSet (VDict w) c v s = (r, s')" by (cases "dictSet (VDict w) c v s")
  with dictSet_frame[OF d, of a] assms True show ?thesis
    by (simp add: write_def)
next
  case False
  obtain r1 s1 where c: "dictCreate (VDict w) c s = (r1, s1)" by (cases "dictCreate (VDict w) c s")
  show ?thesis
  proof (cases r1)
    case (Inl e)
    with dictCreate_frame[OF c assms(2-5)] c False assms(1) show ?thesis
      by (simp add: write_def bnd_def)
  next
    case (Inr t)
    from dictCreate_frame[OF c assms(2-5)] Inr
    have f: "heap s1 ! a = heap s ! a" "t \<noteq> VDict a" by simp_all
    obtain r2 s2 where d: "dictSet t k v s1 = (r2, s2)" by (cases "dictSet t k v s1")
    from dictSet_frame[OF d f(2)] f(1) c Inr d False assms(1) show ?thesis
      by (simp add: write_def bnd_def)
  qed
qed

text \<open>
  C1. The claim: a \<^verbatim>\<open>write(c, k, v)\<close> made while a transaction context is active changes
  only the write-buffer, and a direct \<^verbatim>\<open>read(c, k)\<close> gives the same value before and after
  the journaled run. The code at \<^verbatim>\<open>c = {'a': 1}\<close> and the computation
  \<^verbatim>\<open>write(c, new=read(c)); write(c, 'a', 5)\<close>: \<^verbatim>\<open>read(c)\<close> is \<open>c\<close>, and the whole-value write
  stores it in the slot of the write-buffer where \<^verbatim>\<open>_dictCreate\<close> then looks for the table
  of the buffered keys of \<open>c\<close>, so the second write assigns into \<open>c\<close>. Before the journaled
  run the direct read gives 1; after it, with nothing committed, it gives 5.
\<close>

theorem keyed_write_after_whole_value_write_reaches_storage:
  "fst (read no_overrides (VDict 0) (VStr ''a'') (one_dict (VInt 1) ())) = Inr (VInt 1)
   \<and> fst (journal write_whole_then_key [] (one_dict (VInt 1) ()))
       = Inr (VNone, VDict 1, VDict 2)
   \<and> commit_writes (snd (journal write_whole_then_key [] (one_dict (VInt 1) ()))) = VNone
   \<and> fst (read no_overrides (VDict 0) (VStr ''a'')
            (snd (journal write_whole_then_key [] (one_dict (VInt 1) ())))) = Inr (VInt 5)"
  by (simp add: write_whole_then_key_def journal_def write_def dictSet_def dictCreate_def
      dictGet_def set_context_def read_def buffered_def fetch_def checkOverride_def
      no_overrides_def one_dict_def monad_defs prim_defs Let_def)


section \<open>Journal, goal and commit, unfolded\<close>

lemma journal_unfold:
  "journal func args s =
     (case func args (fresh_context s) of
        (Inl e, s') \<Rightarrow> (Inl e, s')
      | (Inr result, s') \<Rightarrow>
          (Inr (result, VDict (length (heap s)), VDict (Suc (length (heap s)))),
           s'\<lparr>commit_reads := commit_reads s, commit_writes := commit_writes s\<rparr>))"
proof (cases "func args (fresh_context s)")
  case (Pair r s')
  then show ?thesis
    by (cases r) (simp_all add: journal_def fresh_context_def set_context_def monad_defs
        prim_defs Let_def nth_append)
qed

lemma goal_unfold:
  "goal env m func args s =
     (case journal func args (goal_frame s) of
        (Inl e, s1) \<Rightarrow> (Inl e, s1)
      | (Inr j, s1) \<Rightarrow>
          (case goal_do s1 of
             Some d \<Rightarrow>
               (case call_strat env d m func args (s1\<lparr>goal_journaled := Some j, goal_in_do := True\<rparr>) of
                  (Inl e, s2) \<Rightarrow> (Inl e, s2)
                | (Inr r, s2) \<Rightarrow>
                    (Inr r, s2\<lparr>goal_in_do := goal_in_do s1, goal_do := goal_do s,
                               goal_in_goal := goal_in_goal s\<rparr>))
           | None \<Rightarrow>
               commit j False (s1\<lparr>goal_journaled := Some j, goal_do := goal_do s,
                                   goal_in_goal := goal_in_goal s\<rparr>)))"
proof (cases "journal func args (goal_frame s)")
  case (Pair r s1)
  show ?thesis
  proof (cases r)
    case (Inl e)
    with Pair show ?thesis
      by (simp add: goal_def goal_frame_def monad_defs Let_def)
  next
    case (Inr j)
    with Pair show ?thesis
      by (cases "goal_do s1")
         (simp_all add: goal_def goal_frame_def monad_defs Let_def split: prod.splits sum.splits)
  qed
qed

lemma commit_dont: "commit es True = ret (fst es)"
  by (simp add: commit_def)

lemma commit_result: "commit es dont s = (Inr r, s') \<Longrightarrow> r = fst es"
  by (cases es) (auto simp: commit_def bnd_def ret_def split: if_splits prod.splits sum.splits)

text \<open>The lookups leave the state alone; \<^verbatim>\<open>commit\<close> changes nothing but the heap.\<close>

lemma dictGet_state: "dictGet d key s = (r, s') \<Longrightarrow> s' = s"
  by (auto simp: dictGet_def monad_defs prim_defs
      split: option.splits if_splits val.splits sum.splits prod.splits)

lemma dict_update_state: "dict_update d x s = (r, s') \<Longrightarrow> \<exists>h. s' = s\<lparr>heap := h\<rparr>"
  apply (auto simp: dict_update_def deref_def store_def split: option.splits if_splits val.splits)
         apply (rule exI[of _ "heap s"], simp)+
  done

lemma update_method_state: "update_method d s = (r, s') \<Longrightarrow> s' = s"
  by (auto simp: update_method_def split: option.splits)

lemma apply_buffered_state: "apply_buffered w d s = (r, s') \<Longrightarrow> \<exists>h. s' = s\<lparr>heap := h\<rparr>"
proof -
  assume a: "apply_buffered w d s = (r, s')"
  have same: "\<exists>h. s = s\<lparr>heap := h\<rparr>" by (rule exI[of _ "heap s"]) simp
  show ?thesis
  proof (cases "update_method d s")
    case (Pair r1 s1)
    then have s1: "s1 = s" by (rule update_method_state)
    show ?thesis
    proof (cases r1)
      case (Inl e)
      with a Pair s1 same show ?thesis by (simp add: apply_buffered_def bnd_def)
    next
      case u: (Inr u)
      show ?thesis
      proof (cases "dictGet w d s")
        case g: (Pair r2 s2)
        then have s2: "s2 = s" by (rule dictGet_state)
        show ?thesis
        proof (cases r2)
          case (Inl e)
          with a Pair s1 u g s2 same show ?thesis by (simp add: apply_buffered_def bnd_def)
        next
          case (Inr x)
          with a Pair s1 u g s2 have "dict_update d x s = (r, s')"
            by (simp add: apply_buffered_def bnd_def)
          then show ?thesis by (rule dict_update_state)
        qed
      qed
    qed
  qed
qed

text \<open>
  The two facts about the body of the loop of \<^verbatim>\<open>commit\<close> that the loop over the generator
  relies on: it changes no list object, and on a hashable key (which is no dictionary) it
  raises at once.
\<close>

lemma apply_buffered_lists: "apply_buffered w d s = (r, s') \<Longrightarrow> list_heap s' = list_heap s"
  by (auto dest: apply_buffered_state)

lemma apply_buffered_hashable:
  "hashable d \<Longrightarrow> apply_buffered w d s = (Inl AttributeError, s)"
  by (cases d) (simp_all add: apply_buffered_def update_method_def deref_def hashable_def bnd_def)

lemma for_each_state:
  assumes "\<And>k t r t'. body k t = (r, t') \<Longrightarrow> \<exists>h. t' = t\<lparr>heap := h\<rparr>"
  shows "for_each ks body s = (r, s') \<Longrightarrow> \<exists>h. s' = s\<lparr>heap := h\<rparr>"
proof (induction ks arbitrary: s)
  case Nil
  then show ?case by (auto simp: ret_def intro: exI[of _ "heap s"])
next
  case (Cons k ks)
  obtain r1 s1 where b: "body k s = (r1, s1)" by (cases "body k s")
  then obtain h where s1: "s1 = s\<lparr>heap := h\<rparr>" using assms by blast
  show ?case
  proof (cases r1)
    case (Inl e)
    with Cons.prems b s1 show ?thesis by (auto simp: bnd_def)
  next
    case (Inr u)
    with Cons.prems b have "for_each ks body s1 = (r, s')" by (simp add: bnd_def)
    from Cons.IH[OF this] s1 show ?thesis by auto
  qed
qed

lemma keysfn_in_state: "keysfn_in d s = (r, s') \<Longrightarrow> s' = s"
  by (auto simp: keysfn_in_def split: option.splits)

lemma keysfn_get_state: "keysfn_get d s = (r, s') \<Longrightarrow> s' = s"
  by (auto simp: keysfn_get_def split: option.splits)

lemma dict_keys_state: "dict_keys d s = (r, s') \<Longrightarrow> s' = s"
  by (auto simp: dict_keys_def split: option.splits)

lemma bnd_state:
  assumes "bnd m f s = (r, s')"
    and "\<And>r1 s1. m s = (r1, s1) \<Longrightarrow> \<exists>h. s1 = s\<lparr>heap := h\<rparr>"
    and "\<And>x t r2 t'. f x t = (r2, t') \<Longrightarrow> \<exists>h. t' = t\<lparr>heap := h\<rparr>"
  shows "\<exists>h. s' = s\<lparr>heap := h\<rparr>"
proof -
  obtain r1 s1 where m: "m s = (r1, s1)" by (cases "m s")
  then obtain h where s1: "s1 = s\<lparr>heap := h\<rparr>" using assms(2) by blast
  show ?thesis
  proof (cases r1)
    case (Inl e)
    with assms(1) m s1 show ?thesis by (auto simp: bnd_def)
  next
    case (Inr x)
    with assms(1) m have "f x s1 = (r, s')" by (simp add: bnd_def)
    then obtain h' where "s' = s1\<lparr>heap := h'\<rparr>" using assms(3) by blast
    with s1 show ?thesis by auto
  qed
qed

lemma same_state: "s' = s \<Longrightarrow> \<exists>h. s' = s\<lparr>heap := h\<rparr>"
  by (auto intro: exI[of _ "heap s"])

lemma dictKeys_apply_state:
  "dictKeys w (apply_buffered w) s = (r, s') \<Longrightarrow> \<exists>h. s' = s\<lparr>heap := h\<rparr>"
  unfolding dictKeys_def
  apply (erule bnd_state)
   apply (erule keysfn_in_state[THEN same_state])
  apply (simp split: if_splits)
   apply (erule bnd_state)
    apply (erule keysfn_get_state[THEN same_state])
   apply (erule bnd_state)
    apply (erule for_each_state[rotated])
    apply (erule apply_buffered_state)
   apply (erule bnd_state)
    apply (erule keysfn_get_state[THEN same_state])
   apply (erule bnd_state)
    apply (erule dict_keys_state[THEN same_state])
   apply (erule for_each_state[rotated])
   apply (erule apply_buffered_state)
  apply (erule bnd_state)
   apply (erule dict_keys_state[THEN same_state])
  apply (erule for_each_state[rotated])
  apply (erule apply_buffered_state)
  done

lemma commit_state: "commit es dont s = (r, s') \<Longrightarrow> \<exists>h. s' = s\<lparr>heap := h\<rparr>"
proof (cases dont)
  case True
  assume "commit es dont s = (r, s')"
  with True show ?thesis by (auto simp: commit_dont ret_def intro: exI[of _ "heap s"])
next
  case False
  assume c: "commit es dont s = (r, s')"
  obtain res rd w where es: "es = (res, rd, w)" by (cases es)
  obtain r1 s1 where d: "dictKeys w (apply_buffered w) s = (r1, s1)"
    by (cases "dictKeys w (apply_buffered w) s")
  then obtain h where "s1 = s\<lparr>heap := h\<rparr>" by (blast dest: dictKeys_apply_state)
  with c False es d show ?thesis
    by (cases r1) (auto simp: commit_def bnd_def ret_def)
qed

section \<open>Failure of a journaled computation\<close>

text \<open>
  \<^verbatim>\<open>journal\<close> has no handler. When the computation raises, \<^verbatim>\<open>journal\<close> raises the same
  exception, returns no effect set, and the state is the one the computation left:
  \<^verbatim>\<open>journal\<close> itself commits nothing.
\<close>

lemma journal_raises_what_func_raises:
  "func args (fresh_context s) = (Inl e, s') \<Longrightarrow> journal func args s = (Inl e, s')"
  by (simp add: journal_unfold)

lemma write_fresh:
  "\<exists>bufs ls. write reg d key new (fresh_context s)
     = (Inr VNone, (fresh_context s)\<lparr>list_heap := list_heap s @ ls, heap := heap s @ bufs\<rparr>)"
  unfolding fresh_context_def write_def dictSet_def dictCreate_def monad_defs prim_defs Let_def
  apply (cases "hashable d"; cases "hashable key"; cases "key = VNone")
         apply (simp_all add: nth_append hashable_def list_update_append)
     apply (rule exI, rule exI, rule refl)+
  done

text \<open>
  One write and then a failure, for every container, key and value: the dictionaries and
  lists that existed before the call are unchanged, the write went to fresh ones.
\<close>

lemma journal_write_then_raise:
  "\<exists>bufs ls. journal (\<lambda>_. bnd (write reg d key new) (\<lambda>_. raise e)) args s
     = (Inl e, (fresh_context s)\<lparr>list_heap := list_heap s @ ls, heap := heap s @ bufs\<rparr>)"
proof -
  obtain bufs ls where w: "write reg d key new (fresh_context s)
      = (Inr VNone, (fresh_context s)\<lparr>list_heap := list_heap s @ ls, heap := heap s @ bufs\<rparr>)"
    using write_fresh by blast
  have "journal (\<lambda>_. bnd (write reg d key new) (\<lambda>_. raise e)) args s
      = (Inl e, (fresh_context s)\<lparr>list_heap := list_heap s @ ls, heap := heap s @ bufs\<rparr>)"
    using w by (simp add: journal_unfold bnd_def raise_def)
  then show ?thesis by blast
qed

text \<open>
  C2. The claim: when the journaled computation fails, no key touched by its buffered
  writes is altered in the underlying storage. The code at \<^verbatim>\<open>c = {'a': 1}\<close> and the
  computation \<^verbatim>\<open>write(c, new=read(c)); write(c, 'a', 5); raise Exception('boom')\<close>: the
  exception reaches the caller of \<^verbatim>\<open>journal\<close>, no effect set is returned, nothing is
  committed, and yet \<open>c\<close> holds 5 under \<^verbatim>\<open>'a'\<close>, because the keyed write was made on \<open>c\<close>
  itself (the whole-value write had put \<open>c\<close> in the slot where \<^verbatim>\<open>_dictCreate\<close> looks for the
  table of the buffered keys of \<open>c\<close>).
\<close>

theorem failed_journal_leaves_keyed_write_in_storage:
  "heap (one_dict (VInt 1) ()) ! 0 = \<lparr>items = [(VStr ''a'', VInt 1)], ukeys = None\<rparr>
   \<and> fst (journal write_whole_then_key_then_fail [] (one_dict (VInt 1) ()))
       = Inl (Raised ''boom'')
   \<and> heap (snd (journal write_whole_then_key_then_fail [] (one_dict (VInt 1) ()))) ! 0
       = \<lparr>items = [(VStr ''a'', VInt 5)], ukeys = None\<rparr>"
  by (simp add: write_whole_then_key_then_fail_def journal_unfold fresh_context_def write_def
      dictSet_def dictCreate_def dictGet_def read_def buffered_def fetch_def checkOverride_def
      no_overrides_def one_dict_def monad_defs prim_defs)

section \<open>Saving and restoring the context and the frame\<close>

text \<open>
  C3, as stated, fails: neither \<^verbatim>\<open>journal\<close> nor \<^verbatim>\<open>goal\<close> has a \<^verbatim>\<open>try\<close>. From the state with
  no transaction and no goal, a computation that raises leaves the fresh context of
  \<^verbatim>\<open>journal\<close> installed (\<^verbatim>\<open>commit.reads\<close> and \<^verbatim>\<open>commit.writes\<close> are the dictionaries 1 and 2,
  not \<^verbatim>\<open>None\<close>) and leaves \<^verbatim>\<open>goal.in_goal\<close> true. And \<^verbatim>\<open>goal\<close> never saves \<^verbatim>\<open>goal.journaled\<close>:
  after a goal that returns, it holds the effect set of that goal.
\<close>

theorem failure_leaves_context_and_frame_installed:
  "commit_reads (one_dict (VInt 1) ()) = VNone
   \<and> commit_writes (one_dict (VInt 1) ()) = VNone
   \<and> goal_in_goal (one_dict (VInt 1) ()) = False
   \<and> fst (journal failing_comp [] (one_dict (VInt 1) ())) = Inl (Raised ''boom'')
   \<and> commit_reads (snd (journal failing_comp [] (one_dict (VInt 1) ()))) = VDict 1
   \<and> commit_writes (snd (journal failing_comp [] (one_dict (VInt 1) ()))) = VDict 2
   \<and> fst (goal no_strategies score failing_comp [] (one_dict (VInt 1) ())) = Inl (Raised ''boom'')
   \<and> goal_in_goal (snd (goal no_strategies score failing_comp [] (one_dict (VInt 1) ()))) = True
   \<and> goal_journaled (one_dict (VInt 1) ()) = None
   \<and> fst (goal no_strategies score write_a_5 [] (one_dict (VInt 1) ())) = Inr VNone
   \<and> goal_journaled (snd (goal no_strategies score write_a_5 [] (one_dict (VInt 1) ())))
       = Some (VNone, VDict 1, VDict 2)"
  by (simp add: journal_unfold goal_unfold goal_frame_def fresh_context_def failing_comp_def
      raise_def one_dict_def write_a_5_def write_def dictSet_def dictCreate_def dictGet_def
      dictKeys_def dict_keys_def apply_buffered_def commit_def dict_update_def
      update_method_def merge_dict_def
      no_overrides_def monad_defs prim_defs)

text \<open>
  C3, amended. When \<^verbatim>\<open>journal\<close> returns, the transaction context is the one that was active
  at its entry; when \<^verbatim>\<open>goal\<close> returns, \<^verbatim>\<open>goal.do\<close> and \<^verbatim>\<open>goal.in_goal\<close> (the part of the goal
  frame that \<^verbatim>\<open>goal\<close> saves) are the ones at its entry. When the wrapped computation raises, \<^verbatim>\<open>journal\<close> and \<^verbatim>\<open>goal\<close> raise the same exception
  and the state is the one the computation left: nothing is restored.
\<close>

theorem journal_goal_restore_on_return:
  "(journal func args s = (Inr es, s') \<longrightarrow>
      commit_reads s' = commit_reads s \<and> commit_writes s' = commit_writes s)
   \<and> (goal env m func args s = (Inr r, s'') \<longrightarrow>
      goal_do s'' = goal_do s \<and> goal_in_goal s'' = goal_in_goal s)
   \<and> (func' args (fresh_context s) = (Inl e, s1) \<longrightarrow> journal func' args s = (Inl e, s1))
   \<and> (func' args (fresh_context (goal_frame s)) = (Inl e, s2) \<longrightarrow>
      goal env m func' args s = (Inl e, s2))"
proof -
  have a: "commit_reads s' = commit_reads s \<and> commit_writes s' = commit_writes s"
    if "journal func args s = (Inr es, s')"
    using that by (auto simp: journal_unfold split: prod.splits sum.splits)
  have b: "goal_do s'' = goal_do s \<and> goal_in_goal s'' = goal_in_goal s"
    if g: "goal env m func args s = (Inr r, s'')"
  proof -
    obtain r1 t1 where j: "journal func args (goal_frame s) = (r1, t1)"
      by (cases "journal func args (goal_frame s)")
    from g j obtain jj where r1: "r1 = Inr jj"
      by (cases r1) (auto simp: goal_unfold)
    show ?thesis
    proof (cases "goal_do t1")
      case None
      with g j r1 have "commit jj False (t1\<lparr>goal_journaled := Some jj, goal_do := goal_do s,
                                   goal_in_goal := goal_in_goal s\<rparr>) = (Inr r, s'')"
        by (simp add: goal_unfold)
      then obtain h where "s'' = (t1\<lparr>goal_journaled := Some jj, goal_do := goal_do s,
                                   goal_in_goal := goal_in_goal s\<rparr>)\<lparr>heap := h\<rparr>"
        by (blast dest: commit_state)
      then show ?thesis by simp
    next
      case (Some d)
      with g j r1 show ?thesis
        by (auto simp: goal_unfold split: prod.splits sum.splits)
    qed
  qed
  have c: "journal func' args s = (Inl e, s1)" if "func' args (fresh_context s) = (Inl e, s1)"
    using that by (simp add: journal_unfold)
  have d: "goal env m func' args s = (Inl e, s2)"
    if "func' args (fresh_context (goal_frame s)) = (Inl e, s2)"
    using that by (simp add: goal_unfold journal_unfold)
  from a b c d show ?thesis by blast
qed

theorem journal_goal_restore_on_return_witness:
  "fst (journal write_a_5 [] (one_dict (VInt 1) ())) = Inr (VNone, VDict 1, VDict 2)
   \<and> commit_reads (snd (journal write_a_5 [] (one_dict (VInt 1) ()))) = VNone
   \<and> commit_writes (snd (journal write_a_5 [] (one_dict (VInt 1) ()))) = VNone
   \<and> fst (goal no_strategies score write_a_5 [] (one_dict (VInt 1) ())) = Inr VNone
   \<and> goal_do (snd (goal no_strategies score write_a_5 [] (one_dict (VInt 1) ()))) = None
   \<and> goal_in_goal (snd (goal no_strategies score write_a_5 [] (one_dict (VInt 1) ()))) = False
   \<and> journal failing_comp [] (one_dict (VInt 1) ())
       = (Inl (Raised ''boom''), fresh_context (one_dict (VInt 1) ()))
   \<and> goal no_strategies score failing_comp [] (one_dict (VInt 1) ())
       = (Inl (Raised ''boom''), fresh_context (goal_frame (one_dict (VInt 1) ())))"
  using journal_goal_restore_on_return
    [of write_a_5 "[]" "one_dict (VInt 1) ()" "(VNone, VDict 1, VDict 2)"
        "snd (journal write_a_5 [] (one_dict (VInt 1) ()))"
        no_strategies score VNone
        "snd (goal no_strategies score write_a_5 [] (one_dict (VInt 1) ()))"
        failing_comp "Raised ''boom''" "fresh_context (one_dict (VInt 1) ())"
        "fresh_context (goal_frame (one_dict (VInt 1) ()))"]
  by (simp add: journal_unfold goal_unfold goal_frame_def fresh_context_def failing_comp_def
      raise_def one_dict_def write_a_5_def write_def dictSet_def dictCreate_def dictGet_def
      dictKeys_def dict_keys_def apply_buffered_def commit_def dict_update_def
      update_method_def merge_dict_def
      no_overrides_def monad_defs prim_defs)


section \<open>Runs on the example states\<close>

lemmas eval_defs = journal_unfold goal_unfold goal_frame_def fresh_context_def
  read_def buffered_def fetch_def checkOverride_def write_def dictSet_def dictCreate_def
  dictGet_def dictKeys_def dict_keys_def apply_buffered_def commit_def dict_update_def
      update_method_def merge_dict_def
  no_overrides_def bounded_registry_def boundedRead_def boundedWrite_def
  write_only_registry_def one_dict_def monad_defs prim_defs

text \<open>
  C4. The claim: a read inside a transaction caches the value an override resolved, for
  every address, whole-value addresses included, so a second read of the address gives
  the cached value. The code caches only under \<^verbatim>\<open>key is not None\<close>. With the random source
  handing out 5 and 7, two reads of the whole value of a \<^verbatim>\<open>Bounded\<close> object in one transaction
  give 5 and then 7: both deviates are used and the read-memo stays empty. Two reads of
  the key \<^verbatim>\<open>'a'\<close> that holds the object give 5 and 5, and 7 is left in the source.
\<close>

theorem whole_value_read_is_resolved_again:
  "fst (journal read_twice_whole [] (one_dict (VObj 0) [5, 7])) = Inr (VInt 7, VDict 1, VDict 2)
   \<and> world (snd (journal read_twice_whole [] (one_dict (VObj 0) [5, 7]))) = []
   \<and> heap (snd (journal read_twice_whole [] (one_dict (VObj 0) [5, 7]))) ! 1
       = \<lparr>items = [], ukeys = None\<rparr>
   \<and> fst (journal read_twice_keyed [] (one_dict (VObj 0) [5, 7])) = Inr (VInt 5, VDict 1, VDict 2)
   \<and> world (snd (journal read_twice_keyed [] (one_dict (VObj 0) [5, 7]))) = [7]"
  by (simp add: read_twice_whole_def read_twice_keyed_def eval_defs)

text \<open>A buffered write returns what \<^verbatim>\<open>_dictSet\<close> returns, and that is \<^verbatim>\<open>None\<close>.\<close>

lemma dictSet_result: "dictSet d key v s = (Inr x, s') \<Longrightarrow> x = VNone"
  by (auto simp: dictSet_def monad_defs split: prod.splits sum.splits if_splits)

lemma write_buffered_result:
  "commit_writes s \<noteq> VNone \<Longrightarrow> write reg d key new s = (Inr x, s') \<Longrightarrow> x = VNone"
  by (auto simp: write_def bnd_def dest: dictSet_result split: if_splits prod.splits sum.splits)

text \<open>
  C5. The claim: with a transaction context active, \<^verbatim>\<open>write\<close> puts the new value into the
  write-buffer and returns it. The code: the journaled computation \<^verbatim>\<open>lambda: write(c, 'a', 5)\<close>
  returns \<^verbatim>\<open>None\<close>, while the buffer table of \<open>c\<close> (the dictionary 3) holds 5 under \<^verbatim>\<open>'a'\<close>.
\<close>

theorem buffered_write_returns_None:
  "fst (journal write_a_5 [] (one_dict (VInt 1) ())) = Inr (VNone, VDict 1, VDict 2)
   \<and> heap (snd (journal write_a_5 [] (one_dict (VInt 1) ()))) ! 3
       = \<lparr>items = [(VStr ''a'', VInt 5)], ukeys = None\<rparr>"
  by (simp add: write_a_5_def eval_defs)

text \<open>
  Commit effect for a keyed write: after the commit of the journaled \<^verbatim>\<open>write(c, k, v)\<close> the
  dictionary \<open>c\<close> holds \<open>v\<close> under \<open>k\<close>, and nothing else has changed but for the buffers.
\<close>

lemma journal_write_commit:
  assumes "a < length (heap s)" and "k \<noteq> VNone" and "hashable k"
  shows "\<exists>bufs ls. bnd (journal (\<lambda>_. write reg (VDict a) k v) args) (\<lambda>j. commit j False) s
     = (Inr VNone, s\<lparr>list_heap := list_heap s @ ls,
                      heap := (heap s)[a := (heap s ! a)
                         \<lparr>items := AList.update k v (items (heap s ! a))\<rparr>] @ bufs\<rparr>)"
  using assms
  apply (simp add: bnd_def journal_unfold)
  apply (simp add: write_def dictSet_def dictCreate_def
        dictGet_def monad_defs prim_defs fresh_context_def nth_append list_update_append
        dictKeys_def dict_keys_def apply_buffered_def commit_def dict_update_def
      update_method_def merge_dict_def)
  apply (rule exI, rule exI, rule refl)
  done

text \<open>
  The loop of \<^verbatim>\<open>commit\<close> runs inside the generator. When the write-buffer is itself a
  container, its buffered key is merged into it while the list of unhashable keys is gone
  through, so the key is among the keys of the write-buffer when these are gone through
  next, and \<^verbatim>\<open>commit\<close> raises \<^verbatim>\<open>AttributeError\<close> on it (a string has no \<^verbatim>\<open>update\<close>).
\<close>

lemma commit_sees_keys_merged_into_the_buffer:
  "fst (goal no_strategies score write_into_buffer [] (one_dict (VInt 1) ()))
     = Inl AttributeError"
  by (simp add: write_into_buffer_def eval_defs)

text \<open>
  C6. The claim: \<^verbatim>\<open>commit\<close> replaces the value of a container by a buffered whole-value
  write. The code takes every entry of the write-buffer for a table of keys and calls
  \<^verbatim>\<open>dict.update\<close> on the container: a goal without optimizer, which commits its journaled
  run, raises \<^verbatim>\<open>AttributeError\<close> after \<^verbatim>\<open>write(5, new=7)\<close> and after \<^verbatim>\<open>write(x, new=7)\<close> for a
  \<^verbatim>\<open>Bounded\<close> object \<open>x\<close> (neither has an \<^verbatim>\<open>update\<close>), and \<^verbatim>\<open>TypeError\<close> after
  \<^verbatim>\<open>write(c, new=7)\<close> for a dictionary \<open>c\<close> (7 is not iterable). Inside the transaction \<^verbatim>\<open>read(5)\<close> does find the
  buffered 7.
\<close>

theorem commit_of_whole_value_write_raises:
  "fst (journal write_whole_number [] (one_dict (VInt 1) ())) = Inr (VNone, VDict 1, VDict 2)
   \<and> fst (goal no_strategies score write_whole_number [] (one_dict (VInt 1) ()))
       = Inl AttributeError
   \<and> fst (goal no_strategies score write_whole_object [] (one_dict (VObj 0) []))
       = Inl AttributeError
   \<and> fst (goal no_strategies score write_whole_dict [] (one_dict (VInt 1) ()))
       = Inl TypeError
   \<and> fst (journal write_whole_then_read [] (one_dict (VInt 1) ())) = Inr (VInt 7, VDict 1, VDict 2)"
  by (simp add: write_whole_number_def write_whole_object_def write_whole_dict_def
      write_whole_then_read_def eval_defs)

section \<open>Override resolution\<close>

text \<open>
  The scan of \<^verbatim>\<open>checked\<close>: candidates that defer are passed over, the first result that is
  not \<^verbatim>\<open>None\<close> is returned, and when every candidate defers the wrapped function runs.
\<close>

lemma check_scan_first:
  "\<forall>v\<in>set pre. checkOverride reg v code args = ret VNone \<Longrightarrow>
   checkOverride reg c code args s = (Inr r, s') \<Longrightarrow> r \<noteq> VNone \<Longrightarrow>
   check_scan reg code func args (pre @ c # post) s = (Inr r, s')"
  by (induction pre) (simp_all add: bnd_def ret_def)

lemma check_scan_none:
  "\<forall>v\<in>set vs. checkOverride reg v code args = ret VNone \<Longrightarrow>
   check_scan reg code func args vs = func args"
  by (induction vs) simp_all

text \<open>
  C9. The claim: a candidate whose table has no entry for the operation counts as "no
  override". The code: \<^verbatim>\<open>__checkOverride\<close> handles \<^verbatim>\<open>AttributeError\<close> only, so the lookup in
  a table without the entry raises \<^verbatim>\<open>KeyError\<close>. For \<^verbatim>\<open>c = {'a': x}\<close>, where the table of \<open>x\<close>
  has an entry for \<^verbatim>\<open>write\<close> only, \<^verbatim>\<open>read(c, 'a')\<close> catches that \<^verbatim>\<open>KeyError\<close> with the handler
  meant for a missing key and returns \<^verbatim>\<open>None\<close>; with no override it returns \<open>x\<close>. A function
  wrapped by \<^verbatim>\<open>checked\<close> and called on \<open>x\<close> raises the \<^verbatim>\<open>KeyError\<close>.
\<close>

theorem missing_table_entry_is_not_no_override:
  "fst (fetch (VDict 0) (VStr ''a'') (one_dict (VObj 0) [])) = Inr (VObj 0)
   \<and> fst (checkOverride write_only_registry (VObj 0) OpRead [VObj 0] (one_dict (VObj 0) []))
       = Inl KeyError
   \<and> fst (read write_only_registry (VDict 0) (VStr ''a'') (one_dict (VObj 0) [])) = Inr VNone
   \<and> fst (read no_overrides (VDict 0) (VStr ''a'') (one_dict (VObj 0) [])) = Inr (VObj 0)
   \<and> fst (checked write_only_registry (OpFun ''f'') const_one [VObj 0] (one_dict (VObj 0) []))
       = Inl KeyError"
  by (simp add: checked_def const_one_def eval_defs)

section \<open>Composition of optimizers\<close>

text \<open>
  C7. During the baseline run of a goal (frame open, not inside an optimizer, nothing
  registered yet), registering \<open>A\<close> and then \<open>B\<close> leaves \<^verbatim>\<open>combine\<close> over \<open>A\<close> and \<open>B\<close> in
  \<^verbatim>\<open>goal.do\<close>. When the journaled run has returned with that optimizer registered, \<^verbatim>\<open>goal\<close>
  runs the body of \<open>A\<close> on the measure and on a next computation which, called with
  arguments, runs the body of \<open>B\<close> on the measure, the original computation and those
  arguments; the result of \<open>A\<close> is the result of \<^verbatim>\<open>goal\<close>. Both steps together, for the
  computation that registers \<open>A\<close>, then \<open>B\<close>, and returns: a goal entered outside any
  optimizer runs the body of \<open>A\<close> first, handing it that next computation.
\<close>

theorem first_registered_strategy_is_outermost:
  "(goal_in_goal t \<and> \<not> goal_in_do t \<and> goal_do t = None \<longrightarrow>
      bnd (on_goal (Named a)) (\<lambda>_. on_goal (Named b)) t
        = (Inr VNone, t\<lparr>goal_do := Some (Combine (Named a) (Named b))\<rparr>))
   \<and> (journal func args (goal_frame s) = (Inr j, s1)
        \<and> goal_do s1 = Some (Combine (Named a) (Named b)) \<longrightarrow>
      goal env m func args s =
        (case env a m (\<lambda>args'. env b m func args') args
                (s1\<lparr>goal_journaled := Some j, goal_in_do := True\<rparr>) of
           (Inl e, s2) \<Rightarrow> (Inl e, s2)
         | (Inr r, s2) \<Rightarrow>
             (Inr r, s2\<lparr>goal_in_do := goal_in_do s1, goal_do := goal_do s,
                        goal_in_goal := goal_in_goal s\<rparr>)))
   \<and> (\<not> goal_in_do s \<longrightarrow>
      goal env m (register_both a b x) args s =
        (case env a m (\<lambda>args'. env b m (register_both a b x) args') args
                (at_call (Combine (Named a) (Named b)) x s) of
           (Inl e, s2) \<Rightarrow> (Inl e, s2)
         | (Inr r, s2) \<Rightarrow>
             (Inr r, s2\<lparr>goal_in_do := False, goal_do := goal_do s,
                        goal_in_goal := goal_in_goal s\<rparr>)))"
proof (intro conjI)
  show "goal_in_goal t \<and> \<not> goal_in_do t \<and> goal_do t = None \<longrightarrow>
      bnd (on_goal (Named a)) (\<lambda>_. on_goal (Named b)) t
        = (Inr VNone, t\<lparr>goal_do := Some (Combine (Named a) (Named b))\<rparr>)"
    by (simp add: on_goal_def bnd_def)
next
  show "journal func args (goal_frame s) = (Inr j, s1)
        \<and> goal_do s1 = Some (Combine (Named a) (Named b)) \<longrightarrow>
      goal env m func args s =
        (case env a m (\<lambda>args'. env b m func args') args
                (s1\<lparr>goal_journaled := Some j, goal_in_do := True\<rparr>) of
           (Inl e, s2) \<Rightarrow> (Inl e, s2)
         | (Inr r, s2) \<Rightarrow>
             (Inr r, s2\<lparr>goal_in_do := goal_in_do s1, goal_do := goal_do s,
                        goal_in_goal := goal_in_goal s\<rparr>))"
    by (simp add: goal_unfold)
next
  show "\<not> goal_in_do s \<longrightarrow>
      goal env m (register_both a b x) args s =
        (case env a m (\<lambda>args'. env b m (register_both a b x) args') args
                (at_call (Combine (Named a) (Named b)) x s) of
           (Inl e, s2) \<Rightarrow> (Inl e, s2)
         | (Inr r, s2) \<Rightarrow>
             (Inr r, s2\<lparr>goal_in_do := False, goal_do := goal_do s,
                        goal_in_goal := goal_in_goal s\<rparr>))"
    by (simp add: goal_unfold journal_unfold register_both_def on_goal_def bnd_def ret_def
        goal_frame_def fresh_context_def at_call_def split: prod.splits sum.splits)
qed

theorem first_registered_strategy_is_outermost_witness:
  "goal_in_goal (fresh_context (goal_frame (one_dict (VInt 1) ())))
   \<and> \<not> goal_in_do (fresh_context (goal_frame (one_dict (VInt 1) ())))
   \<and> goal_do (fresh_context (goal_frame (one_dict (VInt 1) ()))) = None
   \<and> bnd (on_goal (Named ''A'')) (\<lambda>_. on_goal (Named ''B''))
        (fresh_context (goal_frame (one_dict (VInt 1) ())))
     = (Inr VNone, (fresh_context (goal_frame (one_dict (VInt 1) ())))
                     \<lparr>goal_do := Some (Combine (Named ''A'') (Named ''B''))\<rparr>)
   \<and> fst (journal (register_both ''A'' ''B'' (VInt 0)) [] (goal_frame (one_dict (VInt 1) ())))
       = Inr (VInt 0, VDict 1, VDict 2)
   \<and> goal_do (snd (journal (register_both ''A'' ''B'' (VInt 0)) []
                     (goal_frame (one_dict (VInt 1) ()))))
       = Some (Combine (Named ''A'') (Named ''B''))
   \<and> \<not> goal_in_do (one_dict (VInt 1) ())
   \<and> fst (goal two_strategies score (register_both ''A'' ''B'' (VInt 0)) []
            (one_dict (VInt 1) ())) = Inr (VInt 11)"
  using first_registered_strategy_is_outermost
    [of "fresh_context (goal_frame (one_dict (VInt 1) ()))" "''A''" "''B''"
        "register_both ''A'' ''B'' (VInt 0)" "[]" "one_dict (VInt 1) ()"
        "(VInt 0, VDict 1, VDict 2)"
        "snd (journal (register_both ''A'' ''B'' (VInt 0)) [] (goal_frame (one_dict (VInt 1) ())))"
        two_strategies score "VInt 0"]
  by (simp add: two_strategies_def register_both_def on_goal_def at_call_def eval_defs)

section \<open>Minimize\<close>

lemma resample_length: "resample n func args s = (Inr js, s1) \<Longrightarrow> length js = n"
proof (induction n arbitrary: s js)
  case 0
  then show ?case by (simp add: ret_def)
next
  case (Suc n)
  then show ?case
    by (auto simp: bnd_def ret_def split: prod.splits sum.splits)
qed

text \<open>The loop of \<^verbatim>\<open>repeat\<close> makes exactly those runs and retains exactly that effect set.\<close>

lemma repeat_loop_resample:
  "resample n func args s = (Inr js, s1) \<Longrightarrow>
   repeat_loop n m func args best s = (Inr (keep_best m best js), s1)"
proof (induction n arbitrary: s js best)
  case 0
  then show ?case by (simp add: ret_def keep_best_def)
next
  case (Suc n)
  from Suc.prems obtain j t js' where
    j: "journal func args s = (Inr j, t)" and
    r: "resample n func args t = (Inr js', s1)" and
    js: "js = j # js'"
    by (auto simp: bnd_def ret_def split: prod.splits sum.splits)
  from Suc.IH[OF r] j js show ?case
    by (simp add: bnd_def commit_dont ret_def keep_best_def Let_def)
qed

text \<open>
  The retained effect set is the first one, in the order baseline, run 1, ..., run n, whose
  measure is the least: every earlier one has a strictly larger measure.
\<close>

lemma keep_best_first_min:
  "\<exists>best pre post. keep_best m (b, m (fst b)) js = (best, m (fst best))
     \<and> b # js = pre @ best # post
     \<and> (\<forall>x\<in>set pre. m (fst best) < m (fst x))
     \<and> (\<forall>x\<in>set post. m (fst best) \<le> m (fst x))"
proof (induction js arbitrary: b)
  case Nil
  show ?case
    by (rule exI[of _ b], rule exI[of _ "[]"], rule exI[of _ "[]"]) (simp add: keep_best_def)
next
  case (Cons j js)
  show ?case
  proof (cases "m (fst j) < m (fst b)")
    case True
    from Cons.IH[of j] obtain best pre post where
      k: "keep_best m (j, m (fst j)) js = (best, m (fst best))" and
      d: "j # js = pre @ best # post" and
      p: "\<forall>x\<in>set pre. m (fst best) < m (fst x)" and
      q: "\<forall>x\<in>set post. m (fst best) \<le> m (fst x)"
      by blast
    have le: "m (fst best) \<le> m (fst j)"
    proof (cases pre)
      case Nil
      with d show ?thesis by simp
    next
      case (Cons y ys)
      with d p show ?thesis by auto
    qed
    have "keep_best m (b, m (fst b)) (j # js) = (best, m (fst best))"
      using True k by (simp add: keep_best_def)
    moreover have "b # j # js = (b # pre) @ best # post" using d by simp
    moreover have "\<forall>x\<in>set (b # pre). m (fst best) < m (fst x)"
      using p le True by auto
    ultimately show ?thesis using q
      by (intro exI[of _ best] exI[of _ "b # pre"] exI[of _ post]) simp
  next
    case False
    from Cons.IH[of b] obtain best pre post where
      k: "keep_best m (b, m (fst b)) js = (best, m (fst best))" and
      d: "b # js = pre @ best # post" and
      p: "\<forall>x\<in>set pre. m (fst best) < m (fst x)" and
      q: "\<forall>x\<in>set post. m (fst best) \<le> m (fst x)"
      by blast
    have kk: "keep_best m (b, m (fst b)) (j # js) = (best, m (fst best))"
      using False k by (simp add: keep_best_def)
    show ?thesis
    proof (cases pre)
      case Nil
      with d have b: "best = b" and post: "post = js" by simp_all
      have "b # j # js = [] @ best # (j # js)" using b by simp
      moreover have "\<forall>x\<in>set (j # js). m (fst best) \<le> m (fst x)"
        using q post b False by auto
      ultimately show ?thesis using kk
        by (intro exI[of _ best] exI[of _ "[]"] exI[of _ "j # js"]) simp
    next
      case (Cons y ys)
      with d have y: "y = b" and rest: "js = ys @ best # post" by simp_all
      have "b # j # js = (b # j # ys) @ best # post" using rest by simp
      moreover have "\<forall>x\<in>set (b # j # ys). m (fst best) < m (fst x)"
        using p Cons y False by auto
      ultimately show ?thesis using kk q
        by (intro exI[of _ best] exI[of _ "b # j # ys"] exI[of _ post]) simp
    qed
  qed
qed

text \<open>
  The optimizer \<^verbatim>\<open>repeat\<close>, called by \<^verbatim>\<open>goal\<close> with the measure \<open>m\<close> of that goal while
  \<^verbatim>\<open>goal.journaled\<close> is the baseline \<open>b\<close>, and with the \<open>n\<close> resampled runs \<open>js\<close> all returning:
  it makes exactly those \<open>n\<close> runs; it retains the first effect set of baseline, run 1, ...,
  run n with the least \<open>m\<close> (every earlier one is strictly larger, every later one at least
  as large); it ends with the commit of that effect set; and whenever it returns, its
  result is the result of the retained effect set, whose \<open>m\<close> is at most the \<open>m\<close> of the
  baseline and of each of the \<open>n\<close> runs.
\<close>

lemma repeat_commits_first_smallest:
  assumes "goal_journaled s = Some b" and "resample n func args s = (Inr js, s1)"
  shows "\<exists>best pre post.
           b # js = pre @ best # post
         \<and> (\<forall>x\<in>set pre. m (fst best) < m (fst x))
         \<and> (\<forall>x\<in>set post. m (fst best) \<le> m (fst x))
         \<and> length js = n
         \<and> call_strat env (Repeat n) m func args s = commit best False s1
         \<and> (\<forall>r s'. call_strat env (Repeat n) m func args s = (Inr r, s') \<longrightarrow>
                r = fst best \<and> m r \<le> m (fst b) \<and> (\<forall>j\<in>set js. m r \<le> m (fst j)))"
proof -
  obtain best pre post where
    k: "keep_best m (b, m (fst b)) js = (best, m (fst best))" and
    d: "b # js = pre @ best # post" and
    p: "\<forall>x\<in>set pre. m (fst best) < m (fst x)" and
    q: "\<forall>x\<in>set post. m (fst best) \<le> m (fst x)"
    using keep_best_first_min[of m b js] by blast
  have loop: "repeat_loop n m func args (b, m (fst b)) s = (Inr (best, m (fst best)), s1)"
    using repeat_loop_resample[OF assms(2), of m "(b, m (fst b))"] k by simp
  have run: "call_strat env (Repeat n) m func args s = commit best False s1"
    using assms(1) loop by (simp add: repeat_def commit_dont bnd_def ret_def)
  have least: "m (fst best) \<le> m (fst x)" if "x \<in> set (b # js)" for x
  proof -
    from that d have "x \<in> set pre \<or> x = best \<or> x \<in> set post" by auto
    with p q show ?thesis by auto
  qed
  have res: "r = fst best \<and> m r \<le> m (fst b) \<and> (\<forall>j\<in>set js. m r \<le> m (fst j))"
    if "call_strat env (Repeat n) m func args s = (Inr r, s')" for r s'
  proof -
    from that run have "commit best False s1 = (Inr r, s')" by simp
    then have "r = fst best" by (rule commit_result)
    with least show ?thesis by simp
  qed
  from d p q resample_length[OF assms(2)] run res show ?thesis by blast
qed

text \<open>
  With one measure given to \<^verbatim>\<open>goal\<close> and to \<^verbatim>\<open>minimize\<close>, and the random source handing out 4,
  2 and 9: the baseline is 4, the two runs give 2 and 9, and the goal returns 2.
\<close>

lemma repeat_commits_first_smallest_example:
  "goal_journaled at_dispatch = Some (VInt 4, VDict 1, VDict 2)
   \<and> fst (resample 2 minimizing_draw [] at_dispatch)
       = Inr [(VInt 2, VDict 3, VDict 4), (VInt 9, VDict 5, VDict 6)]
   \<and> fst (call_strat no_strategies (Repeat 2) score minimizing_draw [] at_dispatch) = Inr (VInt 2)
   \<and> fst (goal no_strategies score minimizing_draw [] (one_dict (VInt 1) [4, 2, 9])) = Inr (VInt 2)"
  using repeat_commits_first_smallest
    [of at_dispatch "(VInt 4, VDict 1, VDict 2)" 2 minimizing_draw "[]"
        "[(VInt 2, VDict 3, VDict 4), (VInt 9, VDict 5, VDict 6)]"
        "snd (resample 2 minimizing_draw [] at_dispatch)" score no_strategies]
  by (simp add: at_dispatch_def minimizing_draw_def minimize_def on_goal_def repeat_def
      score_def numeral_2_eq_2 eval_defs)

text \<open>
  What \<^verbatim>\<open>minimize(measure, tries=n)\<close> registers does not depend on its measure: the closure
  \<^verbatim>\<open>repeat\<close> has a parameter of the same name, which is bound when \<^verbatim>\<open>goal\<close> calls it. So
  \<^verbatim>\<open>maximize\<close> without a computation registers what \<^verbatim>\<open>minimize\<close> registers.
\<close>

lemma minimize_measure_unused:
  "minimize env m1 None args n = minimize env m2 None args n"
  by (simp add: minimize_def)

lemma maximize_registers_minimize:
  "maximize env m None args n = minimize env m None args n"
  by (simp add: maximize_def minimize_def)

text \<open>
  C8. The claim: the strategy registered by \<^verbatim>\<open>minimize(measure, tries=n)\<close> keeps the effect
  set of the smallest \<open>measure\<close>, so that the measure of its result is at most that of the
  baseline and of every resampled run. The code: the computation calls
  \<^verbatim>\<open>minimize(lambda r: -r, tries=2)\<close> and is run by \<^verbatim>\<open>goal(lambda r: r, f)\<close>; the random
  source hands out 4, 2 and 9. The baseline run returns 4, \<^verbatim>\<open>Repeat 2\<close> is registered, the two
  resampled runs return 2 and 9, and the goal returns 2: under the measure given to
  \<^verbatim>\<open>minimize\<close> the result (-2) is larger than the baseline (-4) and than the second run (-9).
  \<^verbatim>\<open>maximize(lambda r: r, tries=2)\<close> in the same place returns 2 as well, the minimum.
\<close>

theorem in_body_minimize_ignores_its_measure:
  "fst (journal minimizing_neg_draw [] (goal_frame (one_dict (VInt 1) [4, 2, 9])))
     = Inr (VInt 4, VDict 1, VDict 2)
   \<and> goal_do (snd (journal minimizing_neg_draw [] (goal_frame (one_dict (VInt 1) [4, 2, 9]))))
     = Some (Repeat 2)
   \<and> fst (resample 2 minimizing_neg_draw [] at_neg_dispatch)
       = Inr [(VInt 2, VDict 3, VDict 4), (VInt 9, VDict 5, VDict 6)]
   \<and> fst (goal no_strategies score minimizing_neg_draw [] (one_dict (VInt 1) [4, 2, 9]))
       = Inr (VInt 2)
   \<and> neg_score (VInt 4) < neg_score (VInt 2)
   \<and> neg_score (VInt 9) < neg_score (VInt 2)
   \<and> fst (goal no_strategies score maximizing_draw [] (one_dict (VInt 1) [4, 2, 9]))
       = Inr (VInt 2)"
  by (simp add: at_neg_dispatch_def minimizing_neg_draw_def maximizing_draw_def maximize_def
      minimize_def on_goal_def repeat_def score_def neg_score_def numeral_2_eq_2 eval_defs)

section \<open>Static storage reads\<close>



end
